theory Spec2Isabelle
  imports Main
begin

section \<open>JavaScript values and the platform functions the component calls\<close>

text \<open>
  \<^verbatim>\<open>src/src/App.tsx\<close> is a single React component. Its TypeScript types are erased
  at run time, and everything it stores comes out of \<^verbatim>\<open>JSON.parse\<close> or
  \<^verbatim>\<open>response.json()\<close> unchecked, so the values it handles are modelled as untyped
  JavaScript values. A string is a list of 8-bit characters; an object is the list of
  its own properties, looked up by \<open>map_of\<close>.

  A number is represented by the text \<^verbatim>\<open>String\<close> gives for it: 7 is
  \<open>JNum ''7''\<close>, a half is \<open>JNum ''0.5''\<close>, ten to the power 21 is
  \<open>JNum ''1e+21''\<close>. That text determines the number up to the sign of zero, and
  nothing the component does with a number (truthiness, \<^verbatim>\<open>===\<close>, conversion to a
  string) tells the two zeros apart.
\<close>

datatype jsval =
    JUndefined
  | JNull
  | JBool bool
  | JNum string
  | JStr string
  | JArr "jsval list"
  | JObj "(string \<times> jsval) list"

text \<open>What a \<^verbatim>\<open>throw\<close> or a rejected promise carries.\<close>

datatype exn = TypeError | SyntaxError | InvalidCharacterError | NetworkFailure

text \<open>Truthiness, as tested by \<^verbatim>\<open>if (x)\<close>, \<^verbatim>\<open>!x\<close> and \<^verbatim>\<open>x && y\<close>.\<close>

fun truthy :: "jsval \<Rightarrow> bool" where
  "truthy JUndefined = False"
| "truthy JNull = False"
| "truthy (JBool b) = b"
| "truthy (JNum t) = (t \<noteq> ''0'' \<and> t \<noteq> ''NaN'')"
| "truthy (JStr s) = (s \<noteq> [])"
| "truthy (JArr xs) = True"
| "truthy (JObj kvs) = True"

text \<open>
  Property read \<^verbatim>\<open>v.k\<close>, for the property names the component reads
  (\<^verbatim>\<open>token\<close>, \<^verbatim>\<open>role\<close>, \<^verbatim>\<open>id\<close>, \<^verbatim>\<open>title\<close>, \<^verbatim>\<open>description\<close>,
  \<^verbatim>\<open>teacher_name\<close>, \<^verbatim>\<open>enrolled\<close>): none of them is inherited from a prototype, so
  on a primitive or an array the read gives \<^verbatim>\<open>undefined\<close>; on \<^verbatim>\<open>null\<close> and
  \<^verbatim>\<open>undefined\<close> it throws.
\<close>

fun get_prop :: "jsval \<Rightarrow> string \<Rightarrow> exn + jsval" where
  "get_prop JUndefined k = Inl TypeError"
| "get_prop JNull k = Inl TypeError"
| "get_prop (JObj kvs) k = Inr (case map_of kvs k of None \<Rightarrow> JUndefined | Some v \<Rightarrow> v)"
| "get_prop v k = Inr JUndefined"

text \<open>Optional chaining \<^verbatim>\<open>v?.k\<close>.\<close>

fun opt_prop :: "jsval \<Rightarrow> string \<Rightarrow> jsval" where
  "opt_prop (JObj kvs) k = (case map_of kvs k of None \<Rightarrow> JUndefined | Some v \<Rightarrow> v)"
| "opt_prop v k = JUndefined"

fun Array_isArray :: "jsval \<Rightarrow> bool" where
  "Array_isArray (JArr xs) = True"
| "Array_isArray v = False"

subsection \<open>String conversion, as applied by \<^verbatim>\<open>localStorage.setItem\<close> to its value\<close>

fun join_comma :: "string list \<Rightarrow> string" where
  "join_comma [] = []"
| "join_comma [s] = s"
| "join_comma (s # t # ss) = s @ '','' @ join_comma (t # ss)"

fun sequence_sum :: "('e + 'a) list \<Rightarrow> 'e + 'a list" where
  "sequence_sum [] = Inr []"
| "sequence_sum (Inl e # rs) = Inl e"
| "sequence_sum (Inr x # rs) = (case sequence_sum rs of Inl e \<Rightarrow> Inl e | Inr xs \<Rightarrow> Inr (x # xs))"

text \<open>
  \<^verbatim>\<open>String(v)\<close>. A number prints as its text. An array joins the strings of its elements with commas, a hole of
  \<^verbatim>\<open>null\<close> or \<^verbatim>\<open>undefined\<close> printing as nothing. An object prints through
  \<^verbatim>\<open>Object.prototype.toString\<close> unless an own property \<^verbatim>\<open>toString\<close> shadows it; a
  parsed value is never callable, and then the conversion throws.
\<close>

fun to_string :: "jsval \<Rightarrow> exn + string" where
  "to_string JUndefined = Inr ''undefined''"
| "to_string JNull = Inr ''null''"
| "to_string (JBool b) = Inr (if b then ''true'' else ''false'')"
| "to_string (JNum t) = Inr t"
| "to_string (JStr s) = Inr s"
| "to_string (JArr xs) =
     (case sequence_sum
             (map (\<lambda>x. if x = JUndefined \<or> x = JNull then Inr [] else to_string x) xs) of
        Inl e \<Rightarrow> Inl e
      | Inr ss \<Rightarrow> Inr (join_comma ss))"
| "to_string (JObj kvs) =
     (if map_of kvs ''toString'' = None then Inr ''[object Object]'' else Inl TypeError)"

subsection \<open>\<^verbatim>\<open>String.prototype.split\<close> on a one-character separator\<close>

fun split_acc :: "char \<Rightarrow> string \<Rightarrow> string \<Rightarrow> string list" where
  "split_acc d acc [] = [rev acc]"
| "split_acc d acc (c # cs) =
     (if c = d then rev acc # split_acc d [] cs else split_acc d (c # acc) cs)"

definition split :: "string \<Rightarrow> char \<Rightarrow> string list" where
  "split s d = split_acc d [] s"

subsection \<open>\<^verbatim>\<open>atob\<close>: forgiving base64 decoding\<close>

definition base64_alphabet :: string where
  "base64_alphabet =
     ''ABCDEFGHIJKLMNOPQRSTUVWXYZabcdefghijklmnopqrstuvwxyz0123456789+/''"

fun index_in :: "'a list \<Rightarrow> 'a \<Rightarrow> nat option" where
  "index_in [] x = None"
| "index_in (y # ys) x = (if x = y then Some 0 else map_option Suc (index_in ys x))"

definition ascii_whitespace :: "char \<Rightarrow> bool" where
  "ascii_whitespace c = (of_char c \<in> {9, 10, 12, 13, 32 :: nat})"

text \<open>When the length is a multiple of four, one or two trailing \<^verbatim>\<open>=\<close> are dropped.\<close>

definition strip_padding :: "string \<Rightarrow> string" where
  "strip_padding s =
     (if length s mod 4 \<noteq> 0 then s
      else case rev s of
             a # b # r \<Rightarrow>
               if a = CHR ''='' \<and> b = CHR ''='' then rev r
               else if a = CHR ''='' then rev (b # r)
               else s
           | _ \<Rightarrow> s)"

fun sextets :: "string \<Rightarrow> nat list option" where
  "sextets [] = Some []"
| "sextets (c # cs) =
     (case index_in base64_alphabet c of
        None \<Rightarrow> None
      | Some v \<Rightarrow> map_option ((#) v) (sextets cs))"

text \<open>Four sextets give three bytes; a rest of three gives two, of two gives one.\<close>

fun octets :: "nat list \<Rightarrow> string" where
  "octets (a # b # c # d # r) =
     (let n = ((a * 64 + b) * 64 + c) * 64 + d
      in char_of (n div 65536) # char_of (n div 256 mod 256) # char_of (n mod 256) # octets r)"
| "octets [a, b, c] =
     (let n = ((a * 64 + b) * 64 + c) div 4
      in [char_of (n div 256), char_of (n mod 256)])"
| "octets [a, b] = [char_of ((a * 64 + b) div 16)]"
| "octets r = []"

definition atob :: "string \<Rightarrow> exn + string" where
  "atob s =
     (let d = strip_padding (filter (\<lambda>c. \<not> ascii_whitespace c) s)
      in if length d mod 4 = 1 then Inl InvalidCharacterError
         else case sextets d of
                None \<Rightarrow> Inl InvalidCharacterError
              | Some vs \<Rightarrow> Inr (octets vs))"

section \<open>Requests, effects and the component's state\<close>

record request =
  http_method :: string
  url :: string
  headers :: "(string \<times> string) list"
  body :: "jsval option"

text \<open>
  Everything the component does to the outside, in the order it does it. The body of a
  request is the value handed to \<^verbatim>\<open>JSON.stringify\<close>.
\<close>

datatype effect =
    Fetch request
  | Alert string
  | ConsoleLog string exn
  | ConsoleError string exn

text \<open>
  How an awaited \<^verbatim>\<open>fetch\<close> comes back: rejected, or resolved with a status and a
  body. The body is what \<^verbatim>\<open>response.json()\<close> resolves to, \<open>None\<close> when the body
  is not JSON and \<^verbatim>\<open>response.json()\<close> rejects.
\<close>

datatype fetch_outcome = NetworkError | Response nat "jsval option"

text \<open>\<^verbatim>\<open>response.ok\<close>\<close>

definition ok :: "nat \<Rightarrow> bool" where
  "ok status = (200 \<le> status \<and> status \<le> 299)"

text \<open>
  The eight \<^verbatim>\<open>useState\<close> cells of \<^verbatim>\<open>App\<close> (lines 24 to 31), the browser's
  \<^verbatim>\<open>localStorage\<close>, the log of effects, and the base URL read from
  \<^verbatim>\<open>process.env.REACT_APP_API_URL\<close>. A setter accepts whatever it is given, so the
  cells written from parsed data hold a \<open>jsval\<close>; the cells written only with
  literals have the literal's type.
\<close>

record app =
  currentView :: string
  user :: jsval
  courses :: jsval
  selectedCourse :: jsval
  isLoading :: bool
  error :: "string option"
  showConfirmDialog :: jsval
  enrollingCourse :: bool
  localStorage :: "string \<rightharpoonup> string"
  effects :: "effect list"
  API_URL :: string

definition initial :: "string \<Rightarrow> (string \<rightharpoonup> string) \<Rightarrow> app" where
  "initial api ls =
     \<lparr> currentView = ''login'', user = JNull, courses = JArr [], selectedCourse = JNull,
       isLoading = False, error = None, showConfirmDialog = JNull, enrollingCourse = False,
       localStorage = ls, effects = [], API_URL = api \<rparr>"

text \<open>A stored item inside a template literal: \<^verbatim>\<open>null\<close> prints as \<^verbatim>\<open>null\<close>.\<close>

definition template :: "string option \<Rightarrow> string" where
  "template t = (case t of None \<Rightarrow> ''null'' | Some v \<Rightarrow> v)"

definition emit :: "effect \<Rightarrow> app \<Rightarrow> app" where
  "emit e s = s\<lparr>effects := effects s @ [e]\<rparr>"

section \<open>Session restoration (lines 33 to 52)\<close>

text \<open>
  The expression \<^verbatim>\<open>JSON.parse(atob(token.split('.')[1]))\<close> of lines 38 and 94. A
  token with no second segment gives \<^verbatim>\<open>atob(undefined)\<close>, which decodes the string
  \<^verbatim>\<open>undefined\<close>. \<^verbatim>\<open>JSON.parse\<close> is the platform's parser, a parameter:
  \<open>None\<close> is its \<^verbatim>\<open>SyntaxError\<close>.
\<close>

definition decode_identity :: "(string \<Rightarrow> jsval option) \<Rightarrow> string \<Rightarrow> exn + jsval" where
  "decode_identity JSON_parse token =
     (case atob (case split token CHR ''.'' of a # seg # r \<Rightarrow> seg | _ \<Rightarrow> ''undefined'') of
        Inl e \<Rightarrow> Inl e
      | Inr bytes \<Rightarrow>
          (case JSON_parse bytes of None \<Rightarrow> Inl SyntaxError | Some v \<Rightarrow> Inr v))"

text \<open>
  An \<^verbatim>\<open>async\<close> function runs to its first \<^verbatim>\<open>await\<close> and is resumed when the
  awaited promise settles. Where it stands after either part: it threw (its promise is
  rejected), it returned, or it waits for a response. The state is the one it leaves.
\<close>

datatype progress = Rejected exn app | Resolved app | Pending app

fun state_of :: "progress \<Rightarrow> app" where
  "state_of (Rejected e s) = s"
| "state_of (Resolved s) = s"
| "state_of (Pending s) = s"

definition courses_request :: "app \<Rightarrow> (string \<times> string) list \<Rightarrow> request" where
  "courses_request s hs =
     \<lparr> http_method = ''GET'', url = API_URL s @ ''/api/courses'', headers = hs, body = None \<rparr>"

text \<open>Lines 35 to 42, up to the awaited \<^verbatim>\<open>fetch\<close>; an empty token is falsy.\<close>

definition initializeSession_begin :: "(string \<Rightarrow> jsval option) \<Rightarrow> app \<Rightarrow> progress" where
  "initializeSession_begin JSON_parse s =
     (case localStorage s ''token'' of
        None \<Rightarrow> Resolved (s\<lparr>currentView := ''login'', isLoading := False\<rparr>)
      | Some token \<Rightarrow>
          if token = [] then Resolved (s\<lparr>currentView := ''login'', isLoading := False\<rparr>)
          else case decode_identity JSON_parse token of
                 Inl e \<Rightarrow> Rejected e s
               | Inr userData \<Rightarrow>
                   Pending (emit (Fetch (courses_request s []))
                              (s\<lparr>user := userData, currentView := ''dashboard''\<rparr>)))"

text \<open>Lines 42 to 48, from the response on. Nothing catches a rejection.\<close>

definition initializeSession_settle :: "fetch_outcome \<Rightarrow> app \<Rightarrow> progress" where
  "initializeSession_settle outcome s =
     (case outcome of
        NetworkError \<Rightarrow> Rejected NetworkFailure s
      | Response status None \<Rightarrow> Rejected SyntaxError s
      | Response status (Some coursesData) \<Rightarrow>
          Resolved (s\<lparr>courses := (if Array_isArray coursesData then coursesData else JArr []),
                      isLoading := False\<rparr>))"

section \<open>Catalog refresh (lines 54 to 79)\<close>

definition fetchCourses_begin :: "app \<Rightarrow> app" where
  "fetchCourses_begin s =
     emit (Fetch (courses_request s
                    [(''Authorization'', ''Bearer '' @ template (localStorage s ''token''))]))
          (s\<lparr>isLoading := True, error := None\<rparr>)"

definition fetchCourses_catch :: "exn \<Rightarrow> app \<Rightarrow> app" where
  "fetchCourses_catch e s =
     (emit (ConsoleLog ''Error fetching courses:'' e) s)\<lparr>error := Some ''Failed to load courses''\<rparr>"

definition fetchCourses_settle :: "fetch_outcome \<Rightarrow> app \<Rightarrow> app" where
  "fetchCourses_settle outcome s =
     (case outcome of
        NetworkError \<Rightarrow> fetchCourses_catch NetworkFailure s
      | Response status None \<Rightarrow> fetchCourses_catch SyntaxError s
      | Response status (Some data) \<Rightarrow>
          s\<lparr>courses := (if Array_isArray data then data else JArr [])\<rparr>)
     \<lparr>isLoading := False\<rparr>"

text \<open>One refresh from call to settlement, nothing else running in between.\<close>

definition fetchCourses :: "fetch_outcome \<Rightarrow> app \<Rightarrow> app" where
  "fetchCourses outcome s = fetchCourses_settle outcome (fetchCourses_begin s)"

text \<open>The effect on \<^verbatim>\<open>[user]\<close> (lines 75 to 79).\<close>

definition useEffect_user :: "app \<Rightarrow> app" where
  "useEffect_user s = (if truthy (user s) then fetchCourses_begin s else s)"

section \<open>Login and logout (lines 81 to 109)\<close>

record credentials =
  username :: string
  password :: string

definition handleLogin_begin :: "credentials \<Rightarrow> app \<Rightarrow> app" where
  "handleLogin_begin c s =
     emit (Fetch \<lparr> http_method = ''POST'', url = API_URL s @ ''/api/login'',
                   headers = [(''Content-Type'', ''application/json'')],
                   body = Some (JObj [(''username'', JStr (username c)),
                                      (''password'', JStr (password c))]) \<rparr>) s"

definition handleLogin_catch :: "exn \<Rightarrow> app \<Rightarrow> app" where
  "handleLogin_catch e s = emit (Alert ''Login failed'') (emit (ConsoleLog ''Login error:'' e) s)"

text \<open>
  Lines 90 to 100. \<^verbatim>\<open>data.token\<close> throws on a \<^verbatim>\<open>null\<close> body; \<^verbatim>\<open>setItem\<close>
  stores the string form of whatever \<^verbatim>\<open>data.token\<close> is; only then is the token
  split, which throws unless it is a string. The status of the response is not read.
\<close>

definition handleLogin_settle :: "(string \<Rightarrow> jsval option) \<Rightarrow> fetch_outcome \<Rightarrow> app \<Rightarrow> app" where
  "handleLogin_settle JSON_parse outcome s =
     (case outcome of
        NetworkError \<Rightarrow> handleLogin_catch NetworkFailure s
      | Response status None \<Rightarrow> handleLogin_catch SyntaxError s
      | Response status (Some data) \<Rightarrow>
          (case get_prop data ''token'' of
             Inl e \<Rightarrow> handleLogin_catch e s
           | Inr tok \<Rightarrow>
               (case to_string tok of
                  Inl e \<Rightarrow> handleLogin_catch e s
                | Inr str \<Rightarrow>
                    (let s1 = s\<lparr>localStorage := (localStorage s)(''token'' \<mapsto> str)\<rparr>
                     in case tok of
                          JStr t \<Rightarrow>
                            (case decode_identity JSON_parse t of
                               Inl e \<Rightarrow> handleLogin_catch e s1
                             | Inr userData \<Rightarrow>
                                 s1\<lparr>user := userData, currentView := ''dashboard''\<rparr>)
                        | _ \<Rightarrow> handleLogin_catch TypeError s1))))"

definition handleLogin :: "(string \<Rightarrow> jsval option) \<Rightarrow> credentials \<Rightarrow> fetch_outcome \<Rightarrow> app \<Rightarrow> app" where
  "handleLogin JSON_parse c outcome s = handleLogin_settle JSON_parse outcome (handleLogin_begin c s)"

definition handleLogout :: "app \<Rightarrow> app" where
  "handleLogout s =
     s\<lparr>localStorage := (localStorage s)(''token'' := None), user := JNull,
       currentView := ''login'', courses := JArr [], selectedCourse := JNull\<rparr>"

section \<open>Course selection and enrollment (lines 111 to 141)\<close>

definition handleCourseSelect :: "jsval \<Rightarrow> app \<Rightarrow> app" where
  "handleCourseSelect course s =
     s\<lparr>selectedCourse := course,
       currentView := (if opt_prop (user s) ''role'' = JStr ''teacher''
                       then ''teacherCourse'' else ''studentCourse'')\<rparr>"

definition handleEnrollConfirm_begin :: "jsval \<Rightarrow> app \<Rightarrow> app" where
  "handleEnrollConfirm_begin courseId s =
     emit (Fetch \<lparr> http_method = ''POST'', url = API_URL s @ ''/api/enroll'',
                   headers = [(''Content-Type'', ''application/json''),
                              (''Authorization'', ''Bearer '' @ template (localStorage s ''token''))],
                   body = Some (JObj [(''course_id'', courseId)]) \<rparr>)
          (s\<lparr>enrollingCourse := True\<rparr>)"

text \<open>
  Lines 128 to 140. \<^verbatim>\<open>fetchCourses()\<close> is called and not awaited: its first part runs
  here, its settlement is an event of its own, after the \<^verbatim>\<open>finally\<close> block.
\<close>

definition handleEnrollConfirm_settle :: "fetch_outcome \<Rightarrow> app \<Rightarrow> app" where
  "handleEnrollConfirm_settle outcome s =
     (case outcome of
        NetworkError \<Rightarrow>
          emit (Alert ''Failed to enroll in course'')
            (emit (ConsoleError ''Failed to enroll:'' NetworkFailure) s)
      | Response status b \<Rightarrow>
          if ok status
          then fetchCourses_begin (emit (Alert ''Successfully enrolled in the course!'') s)
          else emit (Alert ''Failed to enroll in course'') s)
     \<lparr>enrollingCourse := False, showConfirmDialog := JNull\<rparr>"

definition handleEnrollConfirm :: "jsval \<Rightarrow> fetch_outcome \<Rightarrow> app \<Rightarrow> app" where
  "handleEnrollConfirm courseId outcome s =
     handleEnrollConfirm_settle outcome (handleEnrollConfirm_begin courseId s)"

section \<open>What is rendered (lines 143 to 267)\<close>

text \<open>
  The render functions are modelled down to what decides behaviour: which screen is
  shown, which buttons it holds, whether a button is disabled and what its
  \<^verbatim>\<open>onClick\<close> does. Markup and class names are left out; texts taken from the data
  are carried as the values they are.
\<close>

datatype action = SelectCourse jsval | AskEnroll jsval | ClearSelection

record button =
  label :: "string option"
  disabled :: bool
  onClick :: action

record card =
  key :: jsval
  title :: jsval
  description :: jsval
  instructor :: "jsval option"
  controls :: "button list"
  enrolled_mark :: bool

datatype catalog = LoadingCourses | CatalogError string | NoCourses | CourseGrid "card list"

datatype screen =
    LoginScreen
  | RegisterScreen
  | TeacherCourseScreen button jsval jsval
  | StudentCourseScreen button jsval jsval
  | DashboardScreen bool catalog

text \<open>
  \<^verbatim>\<open>a === b\<close>. Primitives compare by value, \<^verbatim>\<open>NaN\<close> being equal to nothing.
  Arrays and objects compare by identity, and values here carry no identity: two of
  different structure are different objects and the answer is no; for two of equal
  structure the answer is not determined, \<open>None\<close>.
\<close>

fun strict_eq :: "jsval \<Rightarrow> jsval \<Rightarrow> bool option" where
  "strict_eq (JArr xs) b = (if b = JArr xs then None else Some False)"
| "strict_eq (JObj kvs) b = (if b = JObj kvs then None else Some False)"
| "strict_eq (JNum t) b = Some (b = JNum t \<and> t \<noteq> ''NaN'')"
| "strict_eq a b = Some (a = b)"

text \<open>
  One card of lines 150 to 192. Every property read on a course that is \<^verbatim>\<open>null\<close> or
  \<^verbatim>\<open>undefined\<close> throws, the first of them \<^verbatim>\<open>course.id\<close>; on any other value
  none does. The label of a button is \<open>None\<close> where the choice between the two texts of
  line 181 rests on the identity of two objects.
\<close>

definition renderCard :: "app \<Rightarrow> jsval \<Rightarrow> exn + card" where
  "renderCard s course =
     (if course = JNull \<or> course = JUndefined then Inl TypeError
      else Inr
        \<lparr> key = opt_prop course ''id'',
          title = opt_prop course ''title'',
          description = opt_prop course ''description'',
          instructor =
            (if opt_prop (user s) ''role'' = JStr ''student'' \<and> truthy (opt_prop course ''teacher_name'')
             then Some (opt_prop course ''teacher_name'') else None),
          controls =
            (if opt_prop (user s) ''role'' = JStr ''teacher''
             then [\<lparr> label = Some ''Manage Course'', disabled = False, onClick = SelectCourse course \<rparr>]
             else \<lparr> label = Some ''View Course'', disabled = False, onClick = SelectCourse course \<rparr> #
                  (if \<not> truthy (opt_prop course ''enrolled'')
                   then [\<lparr> label =
                              (if enrollingCourse s
                               then map_option
                                      (\<lambda>same. if same then ''Enrolling...'' else ''Enroll'')
                                      (strict_eq (showConfirmDialog s) (opt_prop course ''id''))
                               else Some ''Enroll''),
                            disabled = enrollingCourse s,
                            onClick = AskEnroll (opt_prop course ''id'') \<rparr>]
                   else [])),
          enrolled_mark =
            (opt_prop (user s) ''role'' \<noteq> JStr ''teacher'' \<and> truthy (opt_prop course ''enrolled'')) \<rparr>)"

text \<open>
  Lines 143 to 196. \<^verbatim>\<open>courses\<close> is read as an array; on anything else
  \<^verbatim>\<open>courses.length\<close> or \<^verbatim>\<open>courses.map\<close> fails, unless the length read is 0.
\<close>

definition renderCourseList :: "app \<Rightarrow> exn + catalog" where
  "renderCourseList s =
     (case courses s of
        JArr cs \<Rightarrow>
          if cs = [] then Inr NoCourses
          else (case sequence_sum (map (renderCard s) cs) of
                  Inl e \<Rightarrow> Inl e
                | Inr cards \<Rightarrow> Inr (CourseGrid cards))
      | JStr str \<Rightarrow> if str = [] then Inr NoCourses else Inl TypeError
      | JObj kvs \<Rightarrow> if map_of kvs ''length'' = Some (JNum ''0'') then Inr NoCourses else Inl TypeError
      | _ \<Rightarrow> Inl TypeError)"

definition back_button :: button where
  "back_button = \<lparr> label = Some ''Back to Courses'', disabled = False, onClick = ClearSelection \<rparr>"

text \<open>Lines 198 to 244. The branch is taken on \<^verbatim>\<open>selectedCourse\<close> alone.\<close>

definition renderDashboardContent :: "app \<Rightarrow> exn + screen" where
  "renderDashboardContent s =
     (if truthy (selectedCourse s)
      then (if opt_prop (user s) ''role'' = JStr ''teacher''
            then Inr (TeacherCourseScreen back_button
                        (opt_prop (selectedCourse s) ''title'') (opt_prop (selectedCourse s) ''id''))
            else Inr (StudentCourseScreen back_button
                        (opt_prop (selectedCourse s) ''title'') (opt_prop (selectedCourse s) ''id'')))
      else (case (if isLoading s then Inr LoadingCourses
                  else case error s of
                         Some msg \<Rightarrow> if msg \<noteq> [] then Inr (CatalogError msg) else renderCourseList s
                       | None \<Rightarrow> renderCourseList s) of
              Inl e \<Rightarrow> Inl e
            | Inr c \<Rightarrow> Inr (DashboardScreen (opt_prop (user s) ''role'' = JStr ''teacher'') c)))"

text \<open>Lines 246 to 265: every view but \<^verbatim>\<open>login\<close> and \<^verbatim>\<open>register\<close> is the default.\<close>

definition renderContent :: "app \<Rightarrow> exn + screen" where
  "renderContent s =
     (if currentView s = ''login'' then Inr LoginScreen
      else if currentView s = ''register'' then Inr RegisterScreen
      else renderDashboardContent s)"

text \<open>The three kinds of \<^verbatim>\<open>onClick\<close> (lines 161, 170, 177, 204, 217).\<close>

fun perform :: "action \<Rightarrow> app \<Rightarrow> app" where
  "perform (SelectCourse course) s = handleCourseSelect course s"
| "perform (AskEnroll courseId) s = s\<lparr>showConfirmDialog := courseId\<rparr>"
| "perform ClearSelection s = s\<lparr>selectedCourse := JNull\<rparr>"

text \<open>A disabled button dispatches no click.\<close>

definition click :: "button \<Rightarrow> app \<Rightarrow> app" where
  "click b s = (if disabled b then s else perform (onClick b) s)"

text \<open>The back action: a click on the button of a course screen.\<close>

definition backToCourses :: "app \<Rightarrow> app" where
  "backToCourses s = click back_button s"

fun is_course_screen :: "exn + screen \<Rightarrow> bool" where
  "is_course_screen (Inr (TeacherCourseScreen b t i)) = True"
| "is_course_screen (Inr (StudentCourseScreen b t i)) = True"
| "is_course_screen r = False"



section \<open>The component as a transition system\<close>

text \<open>
  Everything that changes the state: the two effects, the handlers with the settlement
  of their requests, the view switches handed to the login and register forms (lines
  252, 258, 259) and the clicks.
\<close>

datatype event =
    Mount
  | StartupResponse fetch_outcome
  | UserChanged
  | Refresh
  | CoursesResponse fetch_outcome
  | LoginSubmit credentials
  | LoginResponse fetch_outcome
  | Logout
  | EnrollConfirm jsval
  | EnrollResponse fetch_outcome
  | SwitchToRegister
  | SwitchToLogin
  | Click button

fun step :: "(string \<Rightarrow> jsval option) \<Rightarrow> app \<Rightarrow> event \<Rightarrow> app" where
  "step P s Mount = state_of (initializeSession_begin P s)"
| "step P s (StartupResponse r) = state_of (initializeSession_settle r s)"
| "step P s UserChanged = useEffect_user s"
| "step P s Refresh = fetchCourses_begin s"
| "step P s (CoursesResponse r) = fetchCourses_settle r s"
| "step P s (LoginSubmit c) = handleLogin_begin c s"
| "step P s (LoginResponse r) = handleLogin_settle P r s"
| "step P s Logout = handleLogout s"
| "step P s (EnrollConfirm i) = handleEnrollConfirm_begin i s"
| "step P s (EnrollResponse r) = handleEnrollConfirm_settle r s"
| "step P s SwitchToRegister = s\<lparr>currentView := ''register''\<rparr>"
| "step P s SwitchToLogin = s\<lparr>currentView := ''login''\<rparr>"
| "step P s (Click b) = click b s"

definition run :: "(string \<Rightarrow> jsval option) \<Rightarrow> app \<Rightarrow> event list \<Rightarrow> app" where
  "run P s evs = foldl (step P) s evs"

text \<open>The settlements of a refresh that end in its \<^verbatim>\<open>catch\<close> block.\<close>

fun refresh_failure :: "event \<Rightarrow> bool" where
  "refresh_failure (CoursesResponse NetworkError) = True"
| "refresh_failure (CoursesResponse (Response status None)) = True"
| "refresh_failure ev = False"

section \<open>Example data\<close>

text \<open>
  The scenario of the specification: the user \<^verbatim>\<open>alice\<close>, a student, whose token
  carries her identity in its middle segment, and a parser that reads that one text.
\<close>

definition example_api :: string where
  "example_api = ''https://api.example''"

definition alice_payload :: string where
  "alice_payload = ''{\"id\":1,\"username\":\"alice\",\"role\":\"student\"}''"

definition alice :: jsval where
  "alice = JObj [(''id'', JNum ''1''), (''username'', JStr ''alice''), (''role'', JStr ''student'')]"

definition alice_token :: string where
  "alice_token =
     ''eyJhbGciOiJIUzI1NiJ9.eyJpZCI6MSwidXNlcm5hbWUiOiJhbGljZSIsInJvbGUiOiJzdHVkZW50In0=.c2ln''"

definition example_parse :: "string \<Rightarrow> jsval option" where
  "example_parse text = (if text = alice_payload then Some alice else None)"

definition algebra :: jsval where
  "algebra = JObj [(''id'', JNum ''7''), (''title'', JStr ''Algebra''),
                   (''description'', JStr ''Groups and rings''),
                   (''teacher_id'', JNum ''2''), (''teacher_name'', JStr ''bob'')]"

definition poetry :: jsval where
  "poetry = JObj [(''id'', JNum ''8''), (''title'', JStr ''Poetry''),
                  (''description'', JStr ''Metre and rhyme''),
                  (''teacher_id'', JNum ''3''), (''teacher_name'', JStr ''carol''),
                  (''enrolled'', JBool False)]"

definition error_body :: jsval where
  "error_body = JObj [(''error'', JStr ''Invalid credentials'')]"

text \<open>A body whose \<^verbatim>\<open>token\<close> has no string form: its own \<^verbatim>\<open>toString\<close> is not a
  function.\<close>

definition unprintable_body :: jsval where
  "unprintable_body = JObj [(''token'', JObj [(''toString'', JStr ''x'')])]"

text \<open>Alice on her dashboard, the two courses loaded.\<close>

definition alice_dashboard :: app where
  "alice_dashboard =
     (initial example_api [''token'' \<mapsto> alice_token])
       \<lparr>user := alice, currentView := ''dashboard'', courses := JArr [algebra, poetry]\<rparr>"

definition alice_credentials :: credentials where
  "alice_credentials = \<lparr> username = ''alice'', password = ''x'' \<rparr>"

text \<open>A token whose middle segment is not base64, and one whose middle segment decodes to
  \<^verbatim>\<open>hello\<close>, which is not JSON.\<close>

definition malformed_token :: string where
  "malformed_token = ''eyJhbGciOiJIUzI1NiJ9.not-base64!.c2ln''"

definition hello_token :: string where
  "hello_token = ''eyJhbGciOiJIUzI1NiJ9.aGVsbG8=.c2ln''"


section \<open>Properties\<close>

lemma emit_fields [simp]:
  "currentView (emit e s) = currentView s" "user (emit e s) = user s"
  "courses (emit e s) = courses s" "selectedCourse (emit e s) = selectedCourse s"
  "isLoading (emit e s) = isLoading s" "error (emit e s) = error s"
  "showConfirmDialog (emit e s) = showConfirmDialog s"
  "enrollingCourse (emit e s) = enrollingCourse s"
  "localStorage (emit e s) = localStorage s" "effects (emit e s) = effects s @ [e]"
  "API_URL (emit e s) = API_URL s"
  by (simp_all add: emit_def)

lemma char_of_nat_bits:
  "char_of (n::nat) = Char (odd n) (odd (n div 2)) (odd (n div 4)) (odd (n div 8))
      (odd (n div 16)) (odd (n div 32)) (odd (n div 64)) (odd (n div 128))"
  by (simp add: char_of_def bit_iff_odd_drop_bit drop_bit_eq_div)

lemmas atob_eval =
  atob_def strip_padding_def ascii_whitespace_def base64_alphabet_def char_of_nat_bits

subsection \<open>Enrollment\<close>

text \<open>
  Claim C4. However the enroll request ends (a 2xx status, any other status, a rejected
  fetch), \<^verbatim>\<open>handleEnrollConfirm\<close> leaves \<^verbatim>\<open>enrollingCourse\<close> false and the
  pending-confirmation marker \<^verbatim>\<open>showConfirmDialog\<close> null. On a status outside 200
  to 299 the only effect after the POST is the alert of failure: no request for the
  courses is issued, and \<^verbatim>\<open>courses\<close>, \<^verbatim>\<open>isLoading\<close> and \<^verbatim>\<open>error\<close> stay as
  they were.
\<close>

theorem enroll_clears_flag_and_marker:
  "enrollingCourse (handleEnrollConfirm i outcome s) = False \<and>
   showConfirmDialog (handleEnrollConfirm i outcome s) = JNull \<and>
   (\<not> ok status \<longrightarrow>
      effects (handleEnrollConfirm i (Response status b) s) =
        effects (handleEnrollConfirm_begin i s) @ [Alert ''Failed to enroll in course''] \<and>
      courses (handleEnrollConfirm i (Response status b) s) = courses s \<and>
      isLoading (handleEnrollConfirm i (Response status b) s) = isLoading s \<and>
      error (handleEnrollConfirm i (Response status b) s) = error s)"
  by (cases outcome)
     (simp_all add: handleEnrollConfirm_def handleEnrollConfirm_settle_def
        handleEnrollConfirm_begin_def fetchCourses_begin_def)

theorem enroll_clears_flag_and_marker_witness:
  "\<not> ok 500 \<and>
   enrollingCourse (handleEnrollConfirm (JNum ''7'') (Response 500 None) alice_dashboard) = False \<and>
   showConfirmDialog (handleEnrollConfirm (JNum ''7'') (Response 500 None) alice_dashboard) = JNull \<and>
   effects (handleEnrollConfirm (JNum ''7'') (Response 500 None) alice_dashboard) =
     [Fetch \<lparr> http_method = ''POST'', url = ''https://api.example/api/enroll'',
              headers = [(''Content-Type'', ''application/json''),
                         (''Authorization'', ''Bearer '' @ alice_token)],
              body = Some (JObj [(''course_id'', JNum ''7'')]) \<rparr>,
      Alert ''Failed to enroll in course''] \<and>
   courses (handleEnrollConfirm (JNum ''7'') (Response 500 None) alice_dashboard) =
     JArr [algebra, poetry]"
  using enroll_clears_flag_and_marker
    [where i = "JNum ''7''" and outcome = "Response 500 None" and s = alice_dashboard
       and status = 500 and b = None]
  by (simp add: ok_def handleEnrollConfirm_begin_def alice_dashboard_def initial_def
        example_api_def template_def)

subsection \<open>Logout\<close>

text \<open>
  Claim C5. From every state, \<^verbatim>\<open>handleLogout\<close> leaves the identity \<^verbatim>\<open>user\<close>
  null, the stored credential (the \<^verbatim>\<open>token\<close> key of \<^verbatim>\<open>localStorage\<close>) deleted
  and nothing else in storage touched, the view \<^verbatim>\<open>login\<close>, the selected course
  null and the catalog empty; it adds no effect, so no request goes to the backend.
\<close>

theorem logout_clears_session:
  "user (handleLogout s) = JNull \<and>
   localStorage (handleLogout s) = (localStorage s)(''token'' := None) \<and>
   localStorage (handleLogout s) ''token'' = None \<and>
   currentView (handleLogout s) = ''login'' \<and>
   selectedCourse (handleLogout s) = JNull \<and>
   courses (handleLogout s) = JArr [] \<and>
   effects (handleLogout s) = effects s"
  by (simp add: handleLogout_def)

subsection \<open>A body that is not a sequence\<close>

text \<open>
  Claim C8. When the body of the courses response parses to a value that is not an
  array, \<^verbatim>\<open>courses\<close> becomes the empty array and nothing is thrown: the startup
  fetch of \<^verbatim>\<open>initializeSession\<close> resolves, and \<^verbatim>\<open>fetchCourses\<close> does not set
  \<^verbatim>\<open>error\<close>.
\<close>

theorem non_sequence_body_empties_courses:
  "\<not> Array_isArray data \<Longrightarrow>
     initializeSession_settle (Response status (Some data)) s =
       Resolved (s\<lparr>courses := JArr [], isLoading := False\<rparr>) \<and>
     fetchCourses_settle (Response status (Some data)) s =
       s\<lparr>courses := JArr [], isLoading := False\<rparr> \<and>
     courses (fetchCourses (Response status (Some data)) s) = JArr [] \<and>
     error (fetchCourses (Response status (Some data)) s) = None"
  by (simp add: initializeSession_settle_def fetchCourses_settle_def fetchCourses_def
        fetchCourses_begin_def)

theorem non_sequence_body_empties_courses_witness:
  "\<not> Array_isArray error_body \<and>
   initializeSession_settle (Response 200 (Some error_body)) alice_dashboard =
     Resolved (alice_dashboard\<lparr>courses := JArr [], isLoading := False\<rparr>) \<and>
   courses (fetchCourses (Response 200 (Some error_body)) alice_dashboard) = JArr [] \<and>
   error (fetchCourses (Response 200 (Some error_body)) alice_dashboard) = None"
  using non_sequence_body_empties_courses
    [where data = error_body and status = 200 and s = alice_dashboard]
  by (simp add: error_body_def)

subsection \<open>The catalog is always a sequence\<close>

lemma step_keeps_courses_array:
  assumes "Array_isArray (courses s)"
  shows "Array_isArray (courses (step P s ev))"
proof (cases ev)
  case Mount
  with assms show ?thesis
    by (auto simp: initializeSession_begin_def split: option.splits sum.splits)
next
  case (StartupResponse r)
  with assms show ?thesis
    by (auto simp: initializeSession_settle_def split: fetch_outcome.splits option.splits)
next
  case UserChanged
  with assms show ?thesis by (simp add: useEffect_user_def fetchCourses_begin_def)
next
  case Refresh
  with assms show ?thesis by (simp add: fetchCourses_begin_def)
next
  case (CoursesResponse r)
  with assms show ?thesis
    by (auto simp: fetchCourses_settle_def fetchCourses_catch_def
          split: fetch_outcome.splits option.splits)
next
  case (LoginSubmit c)
  with assms show ?thesis by (simp add: handleLogin_begin_def)
next
  case (LoginResponse r)
  with assms show ?thesis
    by (auto simp: handleLogin_settle_def handleLogin_catch_def Let_def
          split: fetch_outcome.splits option.splits sum.splits jsval.splits)
next
  case Logout
  with assms show ?thesis by (simp add: handleLogout_def)
next
  case (EnrollConfirm i)
  with assms show ?thesis by (simp add: handleEnrollConfirm_begin_def)
next
  case (EnrollResponse r)
  with assms show ?thesis
    by (auto simp: handleEnrollConfirm_settle_def fetchCourses_begin_def
          split: fetch_outcome.splits)
next
  case SwitchToRegister
  with assms show ?thesis by simp
next
  case SwitchToLogin
  with assms show ?thesis by simp
next
  case (Click b)
  with assms show ?thesis
    by (cases "onClick b") (simp_all add: click_def handleCourseSelect_def)
qed

lemma foldl_keeps_courses_array:
  "Array_isArray (courses s) \<Longrightarrow> Array_isArray (courses (foldl (step P) s evs))"
  by (induction evs arbitrary: s) (simp_all add: step_keeps_courses_array)

text \<open>
  Claim C10. Whatever sequence of operations runs from the initial state (startup
  restoration, refresh, login, logout, enrollment, with any outcome of any request and
  any body the backend sends), \<^verbatim>\<open>courses\<close> is an array afterwards, never
  \<^verbatim>\<open>null\<close> and never another kind of value.
\<close>

theorem courses_always_a_sequence:
  "Array_isArray (courses (run P (initial api ls) evs))"
  unfolding run_def by (rule foldl_keeps_courses_array) (simp add: initial_def)

subsection \<open>Refresh\<close>

text \<open>
  Claim C2, as stated, fails: a refresh answered with status 500 and a JSON error object
  sets no error and replaces the two loaded courses by the empty array.
\<close>

theorem refresh_non_success_counterexample:
  "\<not> ok 500 \<and>
   error (fetchCourses (Response 500 (Some error_body)) alice_dashboard) = None \<and>
   courses (fetchCourses (Response 500 (Some error_body)) alice_dashboard) = JArr [] \<and>
   courses alice_dashboard = JArr [algebra, poetry]"
  by (simp add: ok_def fetchCourses_def fetchCourses_settle_def fetchCourses_begin_def
        error_body_def alice_dashboard_def)

lemma step_keeps_error_clear:
  assumes "error s = None" and "\<not> refresh_failure ev"
  shows "error (step P s ev) = None"
proof (cases ev)
  case Mount
  with assms show ?thesis
    by (auto simp: initializeSession_begin_def split: option.splits sum.splits)
next
  case (StartupResponse r)
  with assms show ?thesis
    by (auto simp: initializeSession_settle_def split: fetch_outcome.splits option.splits)
next
  case UserChanged
  with assms show ?thesis by (simp add: useEffect_user_def fetchCourses_begin_def)
next
  case Refresh
  with assms show ?thesis by (simp add: fetchCourses_begin_def)
next
  case (CoursesResponse r)
  with assms show ?thesis
    by (cases r rule: fetch_outcome.exhaust; cases "case r of Response st b \<Rightarrow> b | _ \<Rightarrow> None")
       (auto simp: fetchCourses_settle_def split: fetch_outcome.splits option.splits)
next
  case (LoginSubmit c)
  with assms show ?thesis by (simp add: handleLogin_begin_def)
next
  case (LoginResponse r)
  with assms show ?thesis
    by (auto simp: handleLogin_settle_def handleLogin_catch_def Let_def
          split: fetch_outcome.splits option.splits sum.splits jsval.splits)
next
  case Logout
  with assms show ?thesis by (simp add: handleLogout_def)
next
  case (EnrollConfirm i)
  with assms show ?thesis by (simp add: handleEnrollConfirm_begin_def)
next
  case (EnrollResponse r)
  with assms show ?thesis
    by (auto simp: handleEnrollConfirm_settle_def fetchCourses_begin_def
          split: fetch_outcome.splits)
next
  case SwitchToRegister
  with assms show ?thesis by simp
next
  case SwitchToLogin
  with assms show ?thesis by simp
next
  case (Click b)
  with assms show ?thesis
    by (cases "onClick b") (simp_all add: click_def handleCourseSelect_def)
qed

lemma foldl_keeps_error_clear:
  "error s = None \<Longrightarrow> \<forall>ev\<in>set evs. \<not> refresh_failure ev \<Longrightarrow>
     error (foldl (step P) s evs) = None"
  by (induction evs arbitrary: s) (simp_all add: step_keeps_error_clear)

text \<open>
  Claim C2, amended. A refresh begins by setting \<^verbatim>\<open>isLoading\<close> and clearing
  \<^verbatim>\<open>error\<close>, leaving \<^verbatim>\<open>courses\<close> alone. When it settles, in whatever state
  that happens, \<^verbatim>\<open>isLoading\<close> is false afterwards. If the fetch was rejected or the
  body is not JSON, \<^verbatim>\<open>error\<close> becomes the fixed message and \<^verbatim>\<open>courses\<close> keeps
  the value it has at that moment. The status is not read: if the body parses,
  \<^verbatim>\<open>courses\<close> is replaced by the body, or by the empty array when the body is not
  an array, and \<^verbatim>\<open>error\<close> is left as it is at that moment; it is still null
  then, provided no refresh has settled in its \<^verbatim>\<open>catch\<close> block since this one
  began.
\<close>

theorem refresh_outcomes:
  "isLoading (fetchCourses_settle outcome s) = False \<and>
   (outcome = NetworkError \<or> outcome = Response status None \<longrightarrow>
      error (fetchCourses_settle outcome s) = Some ''Failed to load courses'' \<and>
      courses (fetchCourses_settle outcome s) = courses s) \<and>
   (outcome = Response status (Some data) \<longrightarrow>
      courses (fetchCourses_settle outcome s) = (if Array_isArray data then data else JArr []) \<and>
      error (fetchCourses_settle outcome s) = error s) \<and>
   isLoading (fetchCourses_begin t) = True \<and>
   error (fetchCourses_begin t) = None \<and>
   courses (fetchCourses_begin t) = courses t \<and>
   ((\<forall>ev\<in>set evs. \<not> refresh_failure ev) \<longrightarrow>
      error (run P (fetchCourses_begin t) evs) = None)"
proof -
  have settled: "isLoading (fetchCourses_settle outcome s) = False"
    by (simp add: fetchCourses_settle_def)
  have failed:
    "error (fetchCourses_settle outcome s) = Some ''Failed to load courses'' \<and>
      courses (fetchCourses_settle outcome s) = courses s"
    if "outcome = NetworkError \<or> outcome = Response status None"
    using that by (auto simp: fetchCourses_settle_def fetchCourses_catch_def)
  have parsed:
    "courses (fetchCourses_settle outcome s) = (if Array_isArray data then data else JArr []) \<and>
      error (fetchCourses_settle outcome s) = error s"
    if "outcome = Response status (Some data)"
    using that by (simp add: fetchCourses_settle_def)
  have begun: "isLoading (fetchCourses_begin t) = True \<and> error (fetchCourses_begin t) = None \<and>
      courses (fetchCourses_begin t) = courses t"
    by (simp add: fetchCourses_begin_def)
  have clear: "error (run P (fetchCourses_begin t) evs) = None"
    if "\<forall>ev\<in>set evs. \<not> refresh_failure ev"
    unfolding run_def using begun that by (intro foldl_keeps_error_clear) simp_all
  show ?thesis
    using settled failed parsed begun clear by blast
qed

theorem refresh_outcomes_witness:
  "error (fetchCourses_settle NetworkError (fetchCourses_begin alice_dashboard)) =
     Some ''Failed to load courses'' \<and>
   courses (fetchCourses_settle NetworkError (fetchCourses_begin alice_dashboard)) =
     JArr [algebra, poetry] \<and>
   isLoading (fetchCourses_settle NetworkError (fetchCourses_begin alice_dashboard)) = False \<and>
   error (run example_parse alice_dashboard [Refresh, Refresh, CoursesResponse NetworkError]) =
     Some ''Failed to load courses'' \<and>
   error (fetchCourses_settle (Response 200 (Some (JArr [poetry])))
            (run example_parse alice_dashboard [Refresh, Refresh, CoursesResponse NetworkError])) =
     Some ''Failed to load courses'' \<and>
   courses (fetchCourses_settle (Response 200 (Some (JArr [poetry])))
              (run example_parse alice_dashboard [Refresh, Refresh, CoursesResponse NetworkError])) =
     JArr [poetry] \<and>
   error (run example_parse (fetchCourses_begin alice_dashboard)
            [EnrollConfirm (JNum ''7''), EnrollResponse (Response 500 None)]) = None"
  using refresh_outcomes
      [where outcome = NetworkError and s = "fetchCourses_begin alice_dashboard"
         and t = alice_dashboard and P = example_parse
         and evs = "[EnrollConfirm (JNum ''7''), EnrollResponse (Response 500 None)]"]
    refresh_outcomes
      [where outcome = "Response 200 (Some (JArr [poetry]))" and status = 200
         and data = "JArr [poetry]"
         and s = "run example_parse alice_dashboard [Refresh, Refresh, CoursesResponse NetworkError]"
         and t = alice_dashboard and P = example_parse and evs = "[]"]
  by (simp add: alice_dashboard_def run_def fetchCourses_begin_def fetchCourses_settle_def
        handleEnrollConfirm_begin_def handleEnrollConfirm_settle_def ok_def
        fetchCourses_catch_def)

subsection \<open>Back from a course\<close>

text \<open>
  Claim C3, as stated, fails: a student selects a course and presses back; the view
  state is still \<^verbatim>\<open>studentCourse\<close>, with the selected course null.
\<close>

theorem back_keeps_view_counterexample:
  "currentView (handleCourseSelect algebra alice_dashboard) = ''studentCourse'' \<and>
   currentView (backToCourses (handleCourseSelect algebra alice_dashboard)) = ''studentCourse'' \<and>
   selectedCourse (backToCourses (handleCourseSelect algebra alice_dashboard)) = JNull"
  by (simp add: backToCourses_def click_def back_button_def handleCourseSelect_def
        alice_dashboard_def alice_def)

lemma renderCard_ignores_navigation:
  "renderCard (s\<lparr>selectedCourse := x\<rparr>) = renderCard s"
  "renderCard (s\<lparr>currentView := v\<rparr>) = renderCard s"
  by (simp_all add: renderCard_def fun_eq_iff)

lemma renderCourseList_ignores_navigation:
  "renderCourseList (s\<lparr>selectedCourse := x\<rparr>) = renderCourseList s"
  "renderCourseList (s\<lparr>currentView := v\<rparr>) = renderCourseList s"
  by (simp_all add: renderCourseList_def renderCard_ignores_navigation split: jsval.splits)

lemma renderDashboardContent_ignores_view:
  "renderDashboardContent (s\<lparr>currentView := v\<rparr>) = renderDashboardContent s"
  by (simp add: renderDashboardContent_def renderCourseList_ignores_navigation
        split: option.splits sum.splits)

lemma no_selection_no_course_screen:
  assumes "selectedCourse s = JNull"
  shows "\<not> is_course_screen (renderDashboardContent s)"
proof -
  obtain r where r: "renderDashboardContent s =
      (case r of Inl e \<Rightarrow> Inl e
       | Inr c \<Rightarrow> Inr (DashboardScreen (opt_prop (user s) ''role'' = JStr ''teacher'') c))"
    using assms by (simp add: renderDashboardContent_def)
  show ?thesis by (cases r) (simp_all add: r)
qed

text \<open>
  Claim C3, amended. In a state whose view is \<^verbatim>\<open>teacherCourse\<close> or
  \<^verbatim>\<open>studentCourse\<close>, the back action sets the selected course to null and leaves
  the view state as it is; what is rendered afterwards is what the \<^verbatim>\<open>dashboard\<close>
  view with no selected course renders, since rendering branches on the selected course
  and treats every view other than \<^verbatim>\<open>login\<close> and \<^verbatim>\<open>register\<close> alike. The
  invariant that holds: whenever the selected course is null, no course screen is
  rendered.
\<close>

theorem back_clears_selection_only:
  "(currentView s = ''teacherCourse'' \<or> currentView s = ''studentCourse'' \<longrightarrow>
      selectedCourse (backToCourses s) = JNull \<and>
      currentView (backToCourses s) = currentView s \<and>
      renderContent (backToCourses s) =
        renderContent (s\<lparr>selectedCourse := JNull, currentView := ''dashboard''\<rparr>)) \<and>
   (selectedCourse s = JNull \<longrightarrow> \<not> is_course_screen (renderContent s))"
proof (intro conjI impI)
  assume v: "currentView s = ''teacherCourse'' \<or> currentView s = ''studentCourse''"
  have b: "backToCourses s = s\<lparr>selectedCourse := JNull\<rparr>"
    by (simp add: backToCourses_def click_def back_button_def)
  show "selectedCourse (backToCourses s) = JNull" by (simp add: b)
  show "currentView (backToCourses s) = currentView s" by (simp add: b)
  have "renderContent (backToCourses s) = renderDashboardContent (s\<lparr>selectedCourse := JNull\<rparr>)"
    using v by (auto simp: b renderContent_def)
  also have "\<dots> = renderDashboardContent (s\<lparr>selectedCourse := JNull, currentView := ''dashboard''\<rparr>)"
    by (simp add: renderDashboardContent_ignores_view)
  also have "\<dots> = renderContent (s\<lparr>selectedCourse := JNull, currentView := ''dashboard''\<rparr>)"
    by (simp add: renderContent_def)
  finally show "renderContent (backToCourses s) =
      renderContent (s\<lparr>selectedCourse := JNull, currentView := ''dashboard''\<rparr>)" .
next
  assume "selectedCourse s = JNull"
  then show "\<not> is_course_screen (renderContent s)"
    by (simp add: renderContent_def no_selection_no_course_screen)
qed

theorem back_clears_selection_only_witness:
  "selectedCourse (backToCourses (handleCourseSelect algebra alice_dashboard)) = JNull \<and>
   currentView (backToCourses (handleCourseSelect algebra alice_dashboard)) = ''studentCourse'' \<and>
   renderContent (backToCourses (handleCourseSelect algebra alice_dashboard)) =
     renderContent alice_dashboard \<and>
   \<not> is_course_screen (renderContent alice_dashboard)"
  using back_clears_selection_only [where s = "handleCourseSelect algebra alice_dashboard"]
    back_clears_selection_only [where s = alice_dashboard]
  by (simp add: handleCourseSelect_def alice_dashboard_def alice_def initial_def)

subsection \<open>Startup\<close>

lemma split_acc_segment:
  "d \<notin> set xs \<Longrightarrow> split_acc d acc (xs @ d # rest) = (rev acc @ xs) # split_acc d [] rest"
  by (induction xs arbitrary: acc) auto

lemma split_three_segments:
  assumes "CHR ''.'' \<notin> set h" "CHR ''.'' \<notin> set seg"
  shows "\<exists>r. split (h @ CHR ''.'' # seg @ CHR ''.'' # sg) CHR ''.'' = h # seg # r"
proof -
  have "split (h @ CHR ''.'' # seg @ CHR ''.'' # sg) CHR ''.'' =
          h # split_acc CHR ''.'' [] (seg @ CHR ''.'' # sg)"
    using assms(1) by (simp add: split_def split_acc_segment)
  also have "\<dots> = h # seg # split_acc CHR ''.'' [] sg"
    using assms(2) by (simp add: split_acc_segment)
  finally show ?thesis by blast
qed

lemma decode_identity_middle:
  assumes "CHR ''.'' \<notin> set h" "CHR ''.'' \<notin> set seg"
  shows "decode_identity P (h @ CHR ''.'' # seg @ CHR ''.'' # sg) =
           (case atob seg of Inl e \<Rightarrow> Inl e
            | Inr bytes \<Rightarrow> (case P bytes of None \<Rightarrow> Inl SyntaxError | Some v \<Rightarrow> Inr v))"
proof -
  obtain r where "split (h @ CHR ''.'' # seg @ CHR ''.'' # sg) CHR ''.'' = h # seg # r"
    using split_three_segments [OF assms] by blast
  then show ?thesis by (simp add: decode_identity_def)
qed

lemma atob_not_base64: "atob ''not-base64!'' = Inl InvalidCharacterError"
  by (simp add: atob_eval)

lemma atob_hello: "atob ''aGVsbG8='' = Inr ''hello''"
  by (simp add: atob_eval)

lemma decode_alice: "decode_identity example_parse alice_token = Inr alice"
  by (simp add: decode_identity_def alice_token_def split_def atob_eval example_parse_def
        alice_payload_def)

text \<open>
  Claim C6. A stored credential of three segments whose middle segment is not base64,
  or decodes to a text the parser rejects, makes \<^verbatim>\<open>initializeSession\<close> throw: its
  promise is rejected with the decoder's \<^verbatim>\<open>InvalidCharacterError\<close> or the parser's
  \<^verbatim>\<open>SyntaxError\<close>, the state is left as it was, and nothing turns the failure into
  a result. With no credential stored, the startup path returns with the initial
  state: the identity null and the view \<^verbatim>\<open>login\<close>.
\<close>

theorem restore_malformed_token_throws:
  "(localStorage s ''token'' = Some (h @ ''.'' @ seg @ ''.'' @ sg) \<and>
    CHR ''.'' \<notin> set h \<and> CHR ''.'' \<notin> set seg \<and> atob seg = Inl e \<longrightarrow>
      initializeSession_begin P s = Rejected e s) \<and>
   (localStorage s ''token'' = Some (h @ ''.'' @ seg @ ''.'' @ sg) \<and>
    CHR ''.'' \<notin> set h \<and> CHR ''.'' \<notin> set seg \<and> atob seg = Inr bytes \<and> P bytes = None \<longrightarrow>
      initializeSession_begin P s = Rejected SyntaxError s) \<and>
   (ls ''token'' = None \<longrightarrow>
      initializeSession_begin P (initial api ls) = Resolved (initial api ls))"
proof (intro conjI impI)
  assume a: "localStorage s ''token'' = Some (h @ ''.'' @ seg @ ''.'' @ sg) \<and>
    CHR ''.'' \<notin> set h \<and> CHR ''.'' \<notin> set seg \<and> atob seg = Inl e"
  then have "decode_identity P (h @ ''.'' @ seg @ ''.'' @ sg) = Inl e"
    by (simp add: decode_identity_middle)
  with a show "initializeSession_begin P s = Rejected e s"
    by (simp add: initializeSession_begin_def)
next
  assume a: "localStorage s ''token'' = Some (h @ ''.'' @ seg @ ''.'' @ sg) \<and>
    CHR ''.'' \<notin> set h \<and> CHR ''.'' \<notin> set seg \<and> atob seg = Inr bytes \<and> P bytes = None"
  then have "decode_identity P (h @ ''.'' @ seg @ ''.'' @ sg) = Inl SyntaxError"
    by (simp add: decode_identity_middle)
  with a show "initializeSession_begin P s = Rejected SyntaxError s"
    by (simp add: initializeSession_begin_def)
next
  assume "ls ''token'' = None"
  then show "initializeSession_begin P (initial api ls) = Resolved (initial api ls)"
    by (simp add: initializeSession_begin_def initial_def)
qed

theorem restore_malformed_token_throws_witness:
  "initializeSession_begin example_parse (initial example_api [''token'' \<mapsto> malformed_token]) =
     Rejected InvalidCharacterError (initial example_api [''token'' \<mapsto> malformed_token]) \<and>
   initializeSession_begin example_parse (initial example_api [''token'' \<mapsto> hello_token]) =
     Rejected SyntaxError (initial example_api [''token'' \<mapsto> hello_token]) \<and>
   initializeSession_begin example_parse (initial example_api Map.empty) =
     Resolved (initial example_api Map.empty) \<and>
   user (initial example_api Map.empty) = JNull \<and>
   currentView (initial example_api Map.empty) = ''login''"
  using restore_malformed_token_throws
      [where s = "initial example_api [''token'' \<mapsto> malformed_token]"
         and h = "''eyJhbGciOiJIUzI1NiJ9''" and seg = "''not-base64!''" and sg = "''c2ln''"
         and e = InvalidCharacterError and P = example_parse and ls = Map.empty
         and api = example_api]
    restore_malformed_token_throws
      [where s = "initial example_api [''token'' \<mapsto> hello_token]"
         and h = "''eyJhbGciOiJIUzI1NiJ9''" and seg = "''aGVsbG8=''" and sg = "''c2ln''"
         and bytes = "''hello''" and P = example_parse and ls = Map.empty and api = example_api]
  by (simp add: atob_not_base64 atob_hello malformed_token_def hello_token_def initial_def
        example_parse_def alice_payload_def)

text \<open>
  Claim C7. At startup, with a stored credential that decodes, the first and only
  request \<^verbatim>\<open>initializeSession\<close> issues is the GET for the course list with no
  headers at all, so without \<^verbatim>\<open>Authorization\<close>. Every refresh
  (\<^verbatim>\<open>fetchCourses\<close>) issues the same GET with the stored credential in the header
  \<^verbatim>\<open>Authorization: Bearer <credential>\<close>.
\<close>

theorem startup_fetch_bare_refresh_bearer:
  "(ls ''token'' = Some token \<and> token \<noteq> [] \<and> decode_identity P token = Inr u \<longrightarrow>
      (\<exists>s'. initializeSession_begin P (initial api ls) = Pending s' \<and>
            effects s' =
              [Fetch \<lparr> http_method = ''GET'', url = api @ ''/api/courses'',
                       headers = [], body = None \<rparr>])) \<and>
   (localStorage s ''token'' = Some token \<longrightarrow>
      effects (fetchCourses_begin s) =
        effects s @
          [Fetch \<lparr> http_method = ''GET'', url = API_URL s @ ''/api/courses'',
                   headers = [(''Authorization'', ''Bearer '' @ token)], body = None \<rparr>])"
  by (simp add: initializeSession_begin_def fetchCourses_begin_def courses_request_def
        template_def initial_def)

theorem startup_fetch_bare_refresh_bearer_witness:
  "(\<exists>s'. initializeSession_begin example_parse (initial example_api [''token'' \<mapsto> alice_token]) =
           Pending s' \<and>
         effects s' =
           [Fetch \<lparr> http_method = ''GET'', url = ''https://api.example/api/courses'',
                    headers = [], body = None \<rparr>]) \<and>
   effects (fetchCourses_begin alice_dashboard) =
     [Fetch \<lparr> http_method = ''GET'', url = ''https://api.example/api/courses'',
              headers = [(''Authorization'', ''Bearer '' @ alice_token)], body = None \<rparr>]"
  using startup_fetch_bare_refresh_bearer
      [where ls = "[''token'' \<mapsto> alice_token]" and token = alice_token and P = example_parse
         and u = alice and api = example_api and s = alice_dashboard]
  by (simp add: decode_alice alice_dashboard_def initial_def example_api_def)
    (simp add: alice_token_def)

subsection \<open>Enroll buttons\<close>






subsection \<open>Login\<close>

text \<open>
  Claim C1, as stated, fails: the backend answers a login with status 401 and a JSON
  error object. Login fails (the alert is shown, identity and view are unchanged), yet
  the \<^verbatim>\<open>token\<close> key of \<^verbatim>\<open>localStorage\<close>, absent before, now holds the string
  \<^verbatim>\<open>undefined\<close>.
\<close>

theorem login_non_success_stores_counterexample:
  "\<not> ok 401 \<and>
   localStorage (initial example_api Map.empty) ''token'' = None \<and>
   localStorage (handleLogin example_parse alice_credentials (Response 401 (Some error_body))
                   (initial example_api Map.empty)) ''token'' = Some ''undefined'' \<and>
   user (handleLogin example_parse alice_credentials (Response 401 (Some error_body))
           (initial example_api Map.empty)) = JNull \<and>
   currentView (handleLogin example_parse alice_credentials (Response 401 (Some error_body))
                  (initial example_api Map.empty)) = ''login'' \<and>
   last (effects (handleLogin example_parse alice_credentials (Response 401 (Some error_body))
                    (initial example_api Map.empty))) = Alert ''Login failed''"
  by (simp add: ok_def handleLogin_def handleLogin_settle_def handleLogin_begin_def
        handleLogin_catch_def error_body_def initial_def)

lemma handleLogin_catch_fields [simp]:
  "localStorage (handleLogin_catch e s) = localStorage s"
  "user (handleLogin_catch e s) = user s"
  "currentView (handleLogin_catch e s) = currentView s"
  "last (effects (handleLogin_catch e s)) = Alert ''Login failed''"
  by (simp_all add: handleLogin_catch_def)

lemma handleLogin_begin_fields [simp]:
  "localStorage (handleLogin_begin c s) = localStorage s"
  "user (handleLogin_begin c s) = user s"
  "currentView (handleLogin_begin c s) = currentView s"
  by (simp_all add: handleLogin_begin_def)

text \<open>
  Claim C1, amended. When the request is rejected, or the body of the response is not
  JSON or is JSON \<^verbatim>\<open>null\<close>, login fails: the alert \<^verbatim>\<open>Login failed\<close> is shown (no
  error is raised to the caller), and storage, identity and view are unchanged. The
  status of the response is not read. For every other body, \<^verbatim>\<open>setItem\<close> is handed
  the \<^verbatim>\<open>token\<close> property of the body before the token is decoded: when that value
  has no string form, \<^verbatim>\<open>setItem\<close> throws and login fails as above, storage
  unchanged; otherwise its string form (\<^verbatim>\<open>undefined\<close> when the body has no such
  property) is written under the \<^verbatim>\<open>token\<close> key, and it stays there when the
  token is not a string or does not decode, in which case login fails with the same
  alert, identity and view unchanged.
\<close>

theorem login_failure_and_storage:
  "(outcome = NetworkError \<or> outcome = Response status None \<or>
    outcome = Response status (Some JNull) \<longrightarrow>
      localStorage (handleLogin P c outcome s) = localStorage s \<and>
      user (handleLogin P c outcome s) = user s \<and>
      currentView (handleLogin P c outcome s) = currentView s \<and>
      last (effects (handleLogin P c outcome s)) = Alert ''Login failed'') \<and>
   (get_prop data ''token'' = Inr tok \<and> to_string tok = Inl e \<longrightarrow>
      localStorage (handleLogin P c (Response status (Some data)) s) = localStorage s \<and>
      user (handleLogin P c (Response status (Some data)) s) = user s \<and>
      currentView (handleLogin P c (Response status (Some data)) s) = currentView s \<and>
      last (effects (handleLogin P c (Response status (Some data)) s)) = Alert ''Login failed'') \<and>
   (get_prop data ''token'' = Inr tok \<and> to_string tok = Inr str \<longrightarrow>
      localStorage (handleLogin P c (Response status (Some data)) s) =
        (localStorage s)(''token'' \<mapsto> str)) \<and>
   (get_prop data ''token'' = Inr tok \<and> to_string tok = Inr str \<and>
    (\<forall>t. tok = JStr t \<longrightarrow> (\<exists>e. decode_identity P t = Inl e)) \<longrightarrow>
      user (handleLogin P c (Response status (Some data)) s) = user s \<and>
      currentView (handleLogin P c (Response status (Some data)) s) = currentView s \<and>
      last (effects (handleLogin P c (Response status (Some data)) s)) = Alert ''Login failed'')"
proof -
  have failed_early:
    "localStorage (handleLogin P c outcome s) = localStorage s \<and>
      user (handleLogin P c outcome s) = user s \<and>
      currentView (handleLogin P c outcome s) = currentView s \<and>
      last (effects (handleLogin P c outcome s)) = Alert ''Login failed''"
    if "outcome = NetworkError \<or> outcome = Response status None \<or>
        outcome = Response status (Some JNull)"
    using that by (auto simp: handleLogin_def handleLogin_settle_def)
  have not_stored:
    "localStorage (handleLogin P c (Response status (Some data)) s) = localStorage s \<and>
      user (handleLogin P c (Response status (Some data)) s) = user s \<and>
      currentView (handleLogin P c (Response status (Some data)) s) = currentView s \<and>
      last (effects (handleLogin P c (Response status (Some data)) s)) = Alert ''Login failed''"
    if "get_prop data ''token'' = Inr tok \<and> to_string tok = Inl e"
    using that by (simp add: handleLogin_def handleLogin_settle_def)
  have stored:
    "localStorage (handleLogin P c (Response status (Some data)) s) =
        (localStorage s)(''token'' \<mapsto> str)"
    if "get_prop data ''token'' = Inr tok \<and> to_string tok = Inr str"
    using that
    by (cases tok) (auto simp: handleLogin_def handleLogin_settle_def Let_def split: sum.splits)
  have failed_late:
    "user (handleLogin P c (Response status (Some data)) s) = user s \<and>
      currentView (handleLogin P c (Response status (Some data)) s) = currentView s \<and>
      last (effects (handleLogin P c (Response status (Some data)) s)) = Alert ''Login failed''"
    if "get_prop data ''token'' = Inr tok \<and> to_string tok = Inr str \<and>
        (\<forall>t. tok = JStr t \<longrightarrow> (\<exists>e. decode_identity P t = Inl e))"
    using that
    by (cases tok) (auto simp: handleLogin_def handleLogin_settle_def Let_def split: sum.splits)
  show ?thesis
    using failed_early not_stored stored failed_late by blast
qed

theorem login_failure_and_storage_witness:
  "localStorage (handleLogin example_parse alice_credentials NetworkError
                   (initial example_api Map.empty)) = Map.empty \<and>
   last (effects (handleLogin example_parse alice_credentials NetworkError
                    (initial example_api Map.empty))) = Alert ''Login failed'' \<and>
   localStorage (handleLogin example_parse alice_credentials (Response 401 (Some error_body))
                   (initial example_api Map.empty)) = [''token'' \<mapsto> ''undefined''] \<and>
   user (handleLogin example_parse alice_credentials (Response 401 (Some error_body))
           (initial example_api Map.empty)) = JNull \<and>
   localStorage (handleLogin example_parse alice_credentials
                   (Response 200 (Some (JObj [(''token'', JStr hello_token)])))
                   (initial example_api Map.empty)) = [''token'' \<mapsto> hello_token] \<and>
   currentView (handleLogin example_parse alice_credentials
                  (Response 200 (Some (JObj [(''token'', JStr hello_token)])))
                  (initial example_api Map.empty)) = ''login'' \<and>
   localStorage (handleLogin example_parse alice_credentials
                   (Response 200 (Some (JObj [(''token'', JNum ''1e+21'')])))
                   (initial example_api Map.empty)) = [''token'' \<mapsto> ''1e+21''] \<and>
   localStorage (handleLogin example_parse alice_credentials
                   (Response 200 (Some unprintable_body))
                   (initial example_api Map.empty)) = Map.empty \<and>
   last (effects (handleLogin example_parse alice_credentials
                    (Response 200 (Some unprintable_body))
                    (initial example_api Map.empty))) = Alert ''Login failed''"
  using login_failure_and_storage
      [where outcome = NetworkError and P = example_parse and c = alice_credentials
         and s = "initial example_api Map.empty" and data = error_body and tok = JUndefined
         and str = "''undefined''" and status = 401]
    login_failure_and_storage
      [where outcome = NetworkError and P = example_parse and c = alice_credentials
         and s = "initial example_api Map.empty"
         and data = "JObj [(''token'', JStr hello_token)]" and tok = "JStr hello_token"
         and str = hello_token and status = 200]
    login_failure_and_storage
      [where outcome = NetworkError and P = example_parse and c = alice_credentials
         and s = "initial example_api Map.empty"
         and data = "JObj [(''token'', JNum ''1e+21'')]" and tok = "JNum ''1e+21''"
         and str = "''1e+21''" and status = 200]
    login_failure_and_storage
      [where outcome = NetworkError and P = example_parse and c = alice_credentials
         and s = "initial example_api Map.empty"
         and data = unprintable_body and tok = "JObj [(''toString'', JStr ''x'')]"
         and e = TypeError and status = 200]
  by (simp add: error_body_def unprintable_body_def initial_def decode_identity_def
        hello_token_def split_def atob_eval example_parse_def alice_payload_def)

end
